theory Spec2Isabelle
  imports Complex_Main "HOL-Library.Sublist" "HOL-Library.Log_Nat"
begin

section \<open>Strings\<close>

text \<open>
  A JavaScript string is modelled as a \<^typ>\<open>string\<close> holding its UTF-8 bytes. Every
  character class of the program (\<open>[A-Z0-9\-]\<close> with the flag \<open>i\<close>, \<open>[0-9]\<close>, the comma)
  is a class of ASCII characters, and in a pattern without the flag \<open>u\<close> no character
  outside ASCII matches \<open>[A-Z]\<close> case-insensitively, so a class keeps or removes a
  character exactly when it keeps or removes the bytes of its encoding. The only
  operation that counts code units, \<open>slice(-6)\<close>, is applied to strings of ASCII digits.
\<close>

definition is_digit :: "char \<Rightarrow> bool" where
  "is_digit c = (let n = (of_char c :: nat) in 48 \<le> n \<and> n \<le> 57)"

definition is_upper :: "char \<Rightarrow> bool" where
  "is_upper c = (let n = (of_char c :: nat) in 65 \<le> n \<and> n \<le> 90)"

definition is_lower :: "char \<Rightarrow> bool" where
  "is_lower c = (let n = (of_char c :: nat) in 97 \<le> n \<and> n \<le> 122)"

text \<open>The printable ASCII characters other than the space.\<close>

definition plain_char :: "char \<Rightarrow> bool" where
  "plain_char c = (33 \<le> (of_char c :: nat) \<and> (of_char c :: nat) \<le> 126)"

text \<open>\<open>String.prototype.toUpperCase\<close>, on the strings the program applies it to: strings
  of ASCII letters, digits and hyphens, where it maps \<open>a-z\<close> to \<open>A-Z\<close>.\<close>

definition toUpperCase :: "string \<Rightarrow> string" where
  "toUpperCase s = map (\<lambda>c. if is_lower c then char_of (of_char c - (32 :: nat)) else c) s"

text \<open>The white space and line terminators of ECMAScript (what \<open>trim\<close> and \<open>parseFloat\<close>
  skip), each as its UTF-8 encoding: U+0009 to U+000D, U+0020, U+00A0, U+1680,
  U+2000 to U+200A, U+2028, U+2029, U+202F, U+205F, U+3000 and U+FEFF.\<close>

definition white_space :: "string list" where
  "white_space =
     [[CHR 0x09], [CHR 0x0A], [CHR 0x0B], [CHR 0x0C], [CHR 0x0D], [CHR 0x20],
      [CHR 0xC2, CHR 0xA0], [CHR 0xE1, CHR 0x9A, CHR 0x80],
      [CHR 0xE2, CHR 0x80, CHR 0x80], [CHR 0xE2, CHR 0x80, CHR 0x81],
      [CHR 0xE2, CHR 0x80, CHR 0x82], [CHR 0xE2, CHR 0x80, CHR 0x83],
      [CHR 0xE2, CHR 0x80, CHR 0x84], [CHR 0xE2, CHR 0x80, CHR 0x85],
      [CHR 0xE2, CHR 0x80, CHR 0x86], [CHR 0xE2, CHR 0x80, CHR 0x87],
      [CHR 0xE2, CHR 0x80, CHR 0x88], [CHR 0xE2, CHR 0x80, CHR 0x89],
      [CHR 0xE2, CHR 0x80, CHR 0x8A], [CHR 0xE2, CHR 0x80, CHR 0xA8],
      [CHR 0xE2, CHR 0x80, CHR 0xA9], [CHR 0xE2, CHR 0x80, CHR 0xAF],
      [CHR 0xE2, CHR 0x81, CHR 0x9F], [CHR 0xE3, CHR 0x80, CHR 0x80],
      [CHR 0xEF, CHR 0xBB, CHR 0xBF]]"

text \<open>Removing leading occurrences of the given sequences, as long as one is a prefix.\<close>

function dropLeading :: "string list \<Rightarrow> string \<Rightarrow> string" where
  "dropLeading ws s =
     (case List.find (\<lambda>w. w \<noteq> [] \<and> prefix w s) ws of
        None \<Rightarrow> s
      | Some w \<Rightarrow> dropLeading ws (drop (length w) s))"
  by pat_completeness auto
termination
proof (relation "measure (\<lambda>(ws, s). length s)")
  show "wf (measure (\<lambda>(ws, s). length s))" by simp
next
  fix ws :: "string list" and s w :: string
  assume "List.find (\<lambda>w. w \<noteq> [] \<and> prefix w s) ws = Some w"
  then have "w \<noteq> []" and "prefix w s"
    by (auto simp: find_Some_iff)
  then have "s \<noteq> []" by auto
  with \<open>w \<noteq> []\<close> show "((ws, drop (length w) s), (ws, s)) \<in> measure (\<lambda>(ws, s). length s)"
    by simp
qed

declare dropLeading.simps [simp del]

definition trimStart :: "string \<Rightarrow> string" where
  "trimStart s = dropLeading white_space s"

definition trimEnd :: "string \<Rightarrow> string" where
  "trimEnd s = rev (dropLeading (map rev white_space) (rev s))"

definition trim :: "string \<Rightarrow> string" where
  "trim s = trimEnd (trimStart s)"

section \<open>Numbers\<close>

text \<open>
  A Number of JavaScript is a binary64 value of IEEE 754: not-a-number, an infinity
  with its sign, or a finite value with its sign (\<open>True\<close> for negative) and its magnitude,
  a non-negative rational; \<open>Finite True 0\<close> is the negative zero. Every result of an
  operation is the exact rational result rounded to the nearest binary64 value, ties to
  the even significand.
\<close>

datatype number = NaN | Infinity bool | Finite bool rat

text \<open>The exponent of the binade of a positive rational: \<open>2 ^ e \<le> a < 2 ^ (e + 1)\<close>.\<close>

definition floor_log2 :: "rat \<Rightarrow> int" where
  "floor_log2 a = (if 1 \<le> a then bitlen \<lfloor>a\<rfloor> - 1 else - bitlen (\<lceil>1 / a\<rceil> - 1))"

definition round_half_even :: "rat \<Rightarrow> int" where
  "round_half_even q =
     (let f = \<lfloor>q\<rfloor>; d = q - of_int f
      in if d < 1 / 2 then f
         else if 1 / 2 < d then f + 1
         else if even f then f else f + 1)"

text \<open>
  Rounding a non-negative rational to binary64: 53 significant bits in the normal range
  (exponents from \<open>-1022\<close>), multiples of \<open>2 ^ -1074\<close> below it, and no value (the
  overflow to an infinity) when the rounded magnitude reaches \<open>2 ^ 1024\<close>.
\<close>

definition round_binary64 :: "rat \<Rightarrow> rat option" where
  "round_binary64 a =
     (if a = 0 then Some 0
      else (let e = max (floor_log2 a) (- 1022);
                u = 2 powi (e - 52);
                v = of_int (round_half_even (a / u)) * u
            in if 2 ^ 1024 \<le> v then None else Some v))"

definition mkNumber :: "bool \<Rightarrow> rat \<Rightarrow> number" where
  "mkNumber neg a = (case round_binary64 a of None \<Rightarrow> Infinity neg | Some v \<Rightarrow> Finite neg v)"

definition signedValue :: "bool \<Rightarrow> rat \<Rightarrow> rat" where
  "signedValue neg a = (if neg then - a else a)"

text \<open>The literals \<open>100\<close>, \<open>10\<close>, \<open>30\<close> and \<open>0\<close> of the program are exact.\<close>

definition numLit :: "nat \<Rightarrow> number" where
  "numLit n = mkNumber False (of_nat n)"

definition unaryMinus :: "number \<Rightarrow> number" where
  "unaryMinus x =
     (case x of NaN \<Rightarrow> NaN | Infinity s \<Rightarrow> Infinity (\<not> s) | Finite s a \<Rightarrow> Finite (\<not> s) a)"

fun Number_add :: "number \<Rightarrow> number \<Rightarrow> number" where
  "Number_add NaN y = NaN"
| "Number_add x NaN = NaN"
| "Number_add (Infinity s) (Infinity t) = (if s = t then Infinity s else NaN)"
| "Number_add (Infinity s) (Finite t b) = Infinity s"
| "Number_add (Finite s a) (Infinity t) = Infinity t"
| "Number_add (Finite s a) (Finite t b) =
     (let r = signedValue s a + signedValue t b
      in if r = 0 then Finite (s \<and> t) 0 else mkNumber (r < 0) \<bar>r\<bar>)"

definition Number_subtract :: "number \<Rightarrow> number \<Rightarrow> number" where
  "Number_subtract x y = Number_add x (unaryMinus y)"

fun Number_multiply :: "number \<Rightarrow> number \<Rightarrow> number" where
  "Number_multiply NaN y = NaN"
| "Number_multiply x NaN = NaN"
| "Number_multiply (Infinity s) (Infinity t) = Infinity (s \<noteq> t)"
| "Number_multiply (Infinity s) (Finite t b) = (if b = 0 then NaN else Infinity (s \<noteq> t))"
| "Number_multiply (Finite s a) (Infinity t) = (if a = 0 then NaN else Infinity (s \<noteq> t))"
| "Number_multiply (Finite s a) (Finite t b) = mkNumber (s \<noteq> t) (a * b)"

fun Number_divide :: "number \<Rightarrow> number \<Rightarrow> number" where
  "Number_divide NaN y = NaN"
| "Number_divide x NaN = NaN"
| "Number_divide (Infinity s) (Infinity t) = NaN"
| "Number_divide (Infinity s) (Finite t b) = Infinity (s \<noteq> t)"
| "Number_divide (Finite s a) (Infinity t) = Finite (s \<noteq> t) 0"
| "Number_divide (Finite s a) (Finite t b) =
     (if b = 0 then (if a = 0 then NaN else Infinity (s \<noteq> t))
      else mkNumber (s \<noteq> t) (a / b))"

text \<open>\<open>x < y\<close> on Numbers; a comparison with not-a-number is false.\<close>

fun Number_lessThan :: "number \<Rightarrow> number \<Rightarrow> bool" where
  "Number_lessThan NaN y = False"
| "Number_lessThan x NaN = False"
| "Number_lessThan (Infinity s) (Infinity t) = (s \<and> \<not> t)"
| "Number_lessThan (Infinity s) (Finite t b) = s"
| "Number_lessThan (Finite s a) (Infinity t) = (\<not> t)"
| "Number_lessThan (Finite s a) (Finite t b) = (signedValue s a < signedValue t b)"

text \<open>\<open>x === y\<close> on Numbers: the two zeros are equal, not-a-number equals nothing.\<close>

fun Number_equal :: "number \<Rightarrow> number \<Rightarrow> bool" where
  "Number_equal NaN y = False"
| "Number_equal x NaN = False"
| "Number_equal (Infinity s) (Infinity t) = (s = t)"
| "Number_equal (Infinity s) (Finite t b) = False"
| "Number_equal (Finite s a) (Infinity t) = False"
| "Number_equal (Finite s a) (Finite t b) = (signedValue s a = signedValue t b)"

definition isFinite :: "number \<Rightarrow> bool" where
  "isFinite x = (case x of Finite s a \<Rightarrow> True | _ \<Rightarrow> False)"

definition Math_abs :: "number \<Rightarrow> number" where
  "Math_abs x =
     (case x of NaN \<Rightarrow> NaN | Infinity s \<Rightarrow> Infinity False | Finite s a \<Rightarrow> Finite False a)"

text \<open>\<open>Math.round\<close>: the nearest integer, ties towards positive infinity; a result of
  zero keeps the sign of the argument.\<close>

definition Math_round :: "number \<Rightarrow> number" where
  "Math_round x =
     (case x of
        NaN \<Rightarrow> NaN
      | Infinity s \<Rightarrow> Infinity s
      | Finite s a \<Rightarrow>
          (let r = \<lfloor>signedValue s a + 1 / 2\<rfloor>
           in if r = 0 then Finite s 0 else Finite (r < 0) (of_int \<bar>r\<bar>)))"

section \<open>Numbers and strings\<close>

text \<open>The decimal digits of a natural number, \<open>0\<close> as the single digit \<open>0\<close>.\<close>

fun decDigits :: "nat \<Rightarrow> string" where
  "decDigits n =
     (if n < 10 then [''0123456789'' ! n]
      else decDigits (n div 10) @ [''0123456789'' ! (n mod 10)])"

declare decDigits.simps [simp del]

text \<open>The value of a string of decimal digits.\<close>

definition decValue :: "string \<Rightarrow> nat" where
  "decValue ds = foldl (\<lambda>a c. 10 * a + (of_char c - 48)) 0 ds"

text \<open>The decimal exponent of a positive rational: \<open>10 ^ e \<le> a < 10 ^ (e + 1)\<close>.\<close>

definition floor_log10 :: "rat \<Rightarrow> int" where
  "floor_log10 a =
     (if 1 \<le> a then int (floorlog 10 (nat \<lfloor>a\<rfloor>)) - 1
      else - int (floorlog 10 (nat (\<lceil>1 / a\<rceil> - 1))))"

text \<open>
  \<open>Number::toString\<close> in radix 10 represents a positive finite \<open>a\<close> by the digits of the
  integer \<open>s\<close> with the fewest digits \<open>k\<close> such that \<open>s * 10 ^ (n - k)\<close> is rounded to \<open>a\<close>,
  the closest such to \<open>a\<close>. With \<open>10 ^ (n0 - 1) \<le> a < 10 ^ n0\<close>, the candidates with \<open>k\<close>
  digits are the two multiples of \<open>10 ^ (n0 - k)\<close> around \<open>a\<close>; the upper one may be
  \<open>10 ^ n0\<close> itself, which is the digit \<open>1\<close> with \<open>n = n0 + 1\<close>.
\<close>

definition digitCandidate :: "rat \<Rightarrow> int \<Rightarrow> nat \<Rightarrow> int option" where
  "digitCandidate a n0 k =
     (let p = 10 powi (n0 - int k);
          q = \<lfloor>a / p\<rfloor>;
          lo = (round_binary64 (of_int q * p) = Some a);
          hi = (round_binary64 (of_int (q + 1) * p) = Some a);
          dlo = a - of_int q * p;
          dhi = of_int (q + 1) * p - a
      in if lo \<and> hi then
           (if dlo < dhi then Some q
            else if dhi < dlo then Some (q + 1)
            else if even q then Some q else Some (q + 1))
         else if lo then Some q
         else if hi then Some (q + 1)
         else None)"

primrec firstCandidate :: "rat \<Rightarrow> int \<Rightarrow> nat list \<Rightarrow> (nat \<times> int) option" where
  "firstCandidate a n0 [] = None"
| "firstCandidate a n0 (k # ks) =
     (case digitCandidate a n0 k of
        Some c \<Rightarrow> Some (k, c)
      | None \<Rightarrow> firstCandidate a n0 ks)"

text \<open>The digits and the exponent \<open>n\<close>; seventeen digits identify every binary64 value.\<close>

definition shortestDigits :: "rat \<Rightarrow> string \<times> int" where
  "shortestDigits a =
     (let n0 = floor_log10 a + 1
      in case firstCandidate a n0 [1..<18] of
           Some (k, c) \<Rightarrow> if c = 10 ^ k then (''1'', n0 + 1) else (decDigits (nat c), n0)
         | None \<Rightarrow> (decDigits (nat \<lfloor>a / 10 powi (n0 - 17)\<rfloor>), n0))"

definition formatDigits :: "string \<Rightarrow> int \<Rightarrow> string" where
  "formatDigits ds n =
     (let k = int (length ds)
      in if k \<le> n \<and> n \<le> 21 then ds @ replicate (nat (n - k)) (CHR ''0'')
         else if 0 < n \<and> n \<le> 21 then take (nat n) ds @ ''.'' @ drop (nat n) ds
         else if - 6 < n \<and> n \<le> 0 then ''0.'' @ replicate (nat (- n)) (CHR ''0'') @ ds
         else (let e = n - 1;
                   sg = (if e < 0 then ''-'' else ''+'');
                   es = decDigits (nat \<bar>e\<bar>)
               in if k = 1 then ds @ ''e'' @ sg @ es
                  else take 1 ds @ ''.'' @ drop 1 ds @ ''e'' @ sg @ es))"

text \<open>\<open>String(x)\<close> for a Number \<open>x\<close>.\<close>

definition Number_toString :: "number \<Rightarrow> string" where
  "Number_toString x =
     (case x of
        NaN \<Rightarrow> ''NaN''
      | Infinity s \<Rightarrow> (if s then ''-Infinity'' else ''Infinity'')
      | Finite s a \<Rightarrow>
          if a = 0 then ''0''
          else (let (ds, n) = shortestDigits a
                in (if s then ''-'' else []) @ formatDigits ds n))"

datatype error = RangeError

text \<open>
  \<open>Number.prototype.toFixed(f)\<close>: a RangeError for more than 100 fraction digits; the
  string of \<open>String\<close> for a value that is not finite or is at least \<open>10 ^ 21\<close>; otherwise the
  digits of the integer \<open>n\<close> nearest to \<open>x * 10 ^ f\<close> (the larger of two), with the
  decimal point before the last \<open>f\<close> of them.
\<close>

definition toFixed :: "nat \<Rightarrow> number \<Rightarrow> error + string" where
  "toFixed f x =
     (if 100 < f then Inl RangeError
      else (case x of
              Finite s a \<Rightarrow>
                (let sg = (if s \<and> a \<noteq> 0 then ''-'' else []);
                     m = (if 10 ^ 21 \<le> a then Number_toString (Finite False a)
                          else (let n = nat \<lfloor>a * 10 ^ f + 1 / 2\<rfloor>;
                                    d = decDigits n;
                                    z = (if length d \<le> f
                                         then replicate (f + 1 - length d) (CHR ''0'') @ d
                                         else d);
                                    k = length z
                                in if f \<noteq> 0 then take (k - f) z @ ''.'' @ drop (k - f) z
                                   else d))
                 in Inr (sg @ m))
            | _ \<Rightarrow> Inr (Number_toString x)))"

text \<open>
  \<open>parseFloat\<close>: after leading white space, the longest prefix that is a decimal literal:
  an optional sign, then \<open>Infinity\<close>, or digits with an optional fraction and an optional
  exponent (at least one digit before or after the point; an exponent only when a digit
  follows its sign). No such prefix gives not-a-number. The value of the literal is
  rounded to binary64, correctly also for a literal of more than twenty significant
  digits, as the engines do.
\<close>

definition splitSign :: "string \<Rightarrow> bool \<times> string" where
  "splitSign s =
     (case s of
        [] \<Rightarrow> (False, s)
      | c # r \<Rightarrow> if c = CHR ''-'' then (True, r)
                 else if c = CHR ''+'' then (False, r)
                 else (False, s))"

definition exponentPart :: "string \<Rightarrow> int" where
  "exponentPart s =
     (case s of
        [] \<Rightarrow> 0
      | c # r \<Rightarrow>
          if c = CHR ''e'' \<or> c = CHR ''E''
          then (let (neg, t) = splitSign r;
                    ds = takeWhile is_digit t
                in if ds = [] then 0
                   else if neg then - int (decValue ds) else int (decValue ds))
          else 0)"

definition strDecimalMV :: "string \<Rightarrow> rat option" where
  "strDecimalMV s =
     (let ip = takeWhile is_digit s;
          r1 = dropWhile is_digit s;
          (fp, r2) = (case r1 of
                        [] \<Rightarrow> ([], r1)
                      | c # r \<Rightarrow> if c = CHR ''.''
                                 then (takeWhile is_digit r, dropWhile is_digit r)
                                 else ([], r1))
      in if ip = [] \<and> fp = [] then None
         else Some (of_nat (decValue (ip @ fp)) * 10 powi (exponentPart r2 - int (length fp))))"

definition parseFloat :: "string \<Rightarrow> number" where
  "parseFloat s =
     (let (neg, u) = splitSign (trimStart s)
      in if prefix ''Infinity'' u then Infinity neg
         else (case strDecimalMV u of
                 None \<Rightarrow> NaN
               | Some mv \<Rightarrow> mkNumber neg mv))"

section \<open>Values\<close>

text \<open>
  The values the program handles: strings, and the cell values of a decoded spreadsheet
  row, which are text, numbers and booleans, or \<open>undefined\<close> for a property a row does
  not have.
\<close>

datatype jsval = Undefined | Str string | Num number | Boolean bool

text \<open>\<open>!!v\<close>: the empty string, the zeros, not-a-number, \<open>false\<close> and \<open>undefined\<close> are falsy.\<close>

definition truthy :: "jsval \<Rightarrow> bool" where
  "truthy v =
     (case v of
        Undefined \<Rightarrow> False
      | Str s \<Rightarrow> s \<noteq> []
      | Num x \<Rightarrow> \<not> (x = NaN \<or> Number_equal x (numLit 0))
      | Boolean b \<Rightarrow> b)"

text \<open>\<open>a || b\<close>, for operands without effects.\<close>

definition or_else :: "jsval \<Rightarrow> jsval \<Rightarrow> jsval" where
  "or_else a b = (if truthy a then a else b)"

text \<open>\<open>String(v)\<close>.\<close>

definition ToString :: "jsval \<Rightarrow> string" where
  "ToString v =
     (case v of
        Undefined \<Rightarrow> ''undefined''
      | Str s \<Rightarrow> s
      | Num x \<Rightarrow> Number_toString x
      | Boolean b \<Rightarrow> (if b then ''true'' else ''false''))"

section \<open>The identifier normalizer\<close>

text \<open>
  \<^verbatim>\<open>function cleanMeter(s){
  if(!s) return '';
  return String(s).replace(/[^A-Z0-9\-]/ig,'').toUpperCase().trim();
}\<close>
  The matcher calls it with a string, the loader with a cell value.
\<close>

definition keep_char :: "char \<Rightarrow> bool" where
  "keep_char c = (is_upper c \<or> is_lower c \<or> is_digit c \<or> c = CHR ''-'')"

definition cleanMeter :: "jsval \<Rightarrow> string" where
  "cleanMeter s =
     (if \<not> truthy s then []
      else trim (toUpperCase (filter keep_char (ToString s))))"

section \<open>The record store and the capture ledger\<close>

text \<open>
  \<^verbatim>\<open>let prevData = [];     // array of {Name, Meter, CleanMeter, Consumption}
let ocrResults = [];   // array preserving upload order: {id, preview, rawText, meterOCR, consumptionOCR, matchedPrevKey?}\<close>
\<close>

record prevRecord =
  Name :: string
  Meter :: string
  CleanMeter :: string
  Consumption :: string

record ocrEntry =
  id' :: nat
  preview :: string
  rawText :: string
  meterOCR :: string
  consumptionOCR :: string

section \<open>The matcher\<close>

text \<open>\<open>s.replace(/[^0-9]/g,'')\<close>: the digits of \<open>s\<close>, in order.\<close>

definition digitsOf :: "string \<Rightarrow> string" where
  "digitsOf s = filter is_digit s"

text \<open>\<open>s.slice(-6)\<close>: the last six characters of \<open>s\<close>, all of \<open>s\<close> when it is shorter.\<close>

definition slice6 :: "string \<Rightarrow> string" where
  "slice6 s = drop (length s - 6) s"

text \<open>
  \<^verbatim>\<open>function findPrevByOCR(meterOCR){
  const cleaned = cleanMeter(meterOCR);
  if(!cleaned) return null;
  const exact = prevData.find(r => r.CleanMeter === cleaned);
  if(exact) return exact;
  const digits = cleaned.replace(/[^0-9]/g,'');
  const last6 = digits.slice(-6);
  if(last6){
    return prevData.find(r => (r.CleanMeter.replace(/[^0-9]/g,'').slice(-6) === last6));
  }
  return null;
}\<close>
  The global \<open>prevData\<close> is the first argument; \<open>null\<close> and the \<open>undefined\<close> of a
  failed \<open>find\<close> are \<open>None\<close> (every caller only tests the result for truthiness).
\<close>

definition findPrevByOCR :: "prevRecord list \<Rightarrow> string \<Rightarrow> prevRecord option" where
  "findPrevByOCR prevData m =
     (let cleaned = cleanMeter (Str m) in
      if cleaned = [] then None
      else (case List.find (\<lambda>r. CleanMeter r = cleaned) prevData of
              Some exact \<Rightarrow> Some exact
            | None \<Rightarrow>
                (let digits = digitsOf cleaned;
                     last6 = slice6 digits
                 in if last6 \<noteq> []
                    then List.find (\<lambda>r. slice6 (digitsOf (CleanMeter r)) = last6) prevData
                    else None)))"

section \<open>The export\<close>

record exportRow =
  row_Name :: string
  row_MeterNo :: string
  row_PrevConsumption :: string
  row_CurrentConsumption :: string

text \<open>\<open>a || ''\<close> for a string \<open>a\<close>.\<close>

definition orEmpty :: "string \<Rightarrow> string" where
  "orEmpty a = (if a \<noteq> [] then a else [])"

text \<open>
  The body of the first \<open>forEach\<close> of the export handler, on the pair of
  \<open>exportRows\<close> and \<open>matchedPrevKeys\<close>:
  \<^verbatim>\<open>  ocrResults.forEach(r => {
    const prev = findPrevByOCR(r.meterOCR);
    const name = prev ? prev.Name : 'Not Found';
    const meterPrev = prev ? prev.Meter : 'Not Found';
    const prevCons = prev ? prev.Consumption : 'Not Found';
    const currCons = r.consumptionOCR || '';
    if(prev && prev.CleanMeter) matchedPrevKeys.add(prev.CleanMeter);
    exportRows.push({ Name: name, 'Meter No.': meterPrev,
      'Prev Consumption': prevCons, 'Current Consumption': currCons });
  });\<close>
\<close>

definition exportOcrStep ::
  "prevRecord list \<Rightarrow> exportRow list \<times> string set \<Rightarrow> ocrEntry \<Rightarrow> exportRow list \<times> string set" where
  "exportOcrStep prevData st r =
     (let (exportRows, matchedPrevKeys) = st;
          prev = findPrevByOCR prevData (meterOCR r);
          name = (case prev of Some p \<Rightarrow> Name p | None \<Rightarrow> ''Not Found'');
          meterPrev = (case prev of Some p \<Rightarrow> Meter p | None \<Rightarrow> ''Not Found'');
          prevCons = (case prev of Some p \<Rightarrow> Consumption p | None \<Rightarrow> ''Not Found'');
          currCons = orEmpty (consumptionOCR r);
          matchedPrevKeys' =
            (case prev of
               Some p \<Rightarrow> if CleanMeter p \<noteq> [] then insert (CleanMeter p) matchedPrevKeys
                         else matchedPrevKeys
             | None \<Rightarrow> matchedPrevKeys)
      in (exportRows @ [\<lparr>row_Name = name, row_MeterNo = meterPrev,
                         row_PrevConsumption = prevCons, row_CurrentConsumption = currCons\<rparr>],
          matchedPrevKeys'))"

text \<open>
  The body of the second \<open>forEach\<close>:
  \<^verbatim>\<open>  prevData.forEach(p => {
    if(!p.CleanMeter) return;
    if(!matchedPrevKeys.has(p.CleanMeter)){
      exportRows.push({ Name: p.Name || '', 'Meter No.': p.Meter || '',
        'Prev Consumption': p.Consumption || '', 'Current Consumption': '' });
    }
  });\<close>
\<close>

definition exportPrevStep :: "string set \<Rightarrow> exportRow list \<Rightarrow> prevRecord \<Rightarrow> exportRow list" where
  "exportPrevStep matchedPrevKeys exportRows p =
     (if CleanMeter p = [] then exportRows
      else if CleanMeter p \<notin> matchedPrevKeys
      then exportRows @ [\<lparr>row_Name = orEmpty (Name p), row_MeterNo = orEmpty (Meter p),
                          row_PrevConsumption = orEmpty (Consumption p),
                          row_CurrentConsumption = []\<rparr>]
      else exportRows)"

text \<open>The rows the click handler of \<open>exportBtn\<close> hands to the spreadsheet writer.\<close>

definition exportRowsOf :: "prevRecord list \<Rightarrow> ocrEntry list \<Rightarrow> exportRow list" where
  "exportRowsOf prevData ocrResults =
     (let (exportRows, matchedPrevKeys) = foldl (exportOcrStep prevData) ([], {}) ocrResults
      in foldl (exportPrevStep matchedPrevKeys) exportRows prevData)"

section \<open>The deviation calculator\<close>

record diffObj =
  text' :: string
  cls :: string

text \<open>The em dash U+2014 of the placeholder, in UTF-8.\<close>

definition em_dash :: string where
  "em_dash = [CHR 0xE2, CHR 0x80, CHR 0x94]"

text \<open>\<open>s.replace(/,/g,'')\<close>.\<close>

definition removeCommas :: "string \<Rightarrow> string" where
  "removeCommas s = filter (\<lambda>c. c \<noteq> CHR '','') s"

text \<open>
  \<^verbatim>\<open>function calcDiffAbs(prev, curr){
  const pn = parseFloat(String(prev).replace(/,/g,'')); // prev from step1
  const cn = parseFloat(String(curr).replace(/,/g,'')); // current from OCR/edit
  if(!isFinite(pn) || pn === 0 || !isFinite(cn)) return { text: '-', cls: 'diff-gray' };
  const diff = Math.abs(((cn - pn) / pn) * 100);
  const rounded = (Math.round(diff * 10) / 10).toFixed(1) + '%';
  return diff > 30 ? { text: rounded, cls: 'diff-red' } : { text: rounded, cls: 'diff-green' };
}\<close>
  (the text of the first \<open>return\<close> is the em dash). \<open>deviationOf\<close> is the function from
  its third line on, in terms of \<open>pn\<close> and \<open>cn\<close>; \<open>calcDiffAbs\<close> is the whole function,
  for the strings it is called with (\<open>curr'\<close> stands for \<open>curr\<close>). The result is \<open>Inl\<close>
  when \<open>toFixed\<close> throws.
\<close>

definition deviationOf :: "number \<Rightarrow> number \<Rightarrow> error + diffObj" where
  "deviationOf pn cn =
     (if \<not> isFinite pn \<or> Number_equal pn (numLit 0) \<or> \<not> isFinite cn
      then Inr \<lparr>text' = em_dash, cls = ''diff-gray''\<rparr>
      else (let diff = Math_abs (Number_multiply
                         (Number_divide (Number_subtract cn pn) pn) (numLit 100))
            in case toFixed 1 (Number_divide (Math_round (Number_multiply diff (numLit 10)))
                                  (numLit 10)) of
                 Inl e \<Rightarrow> Inl e
               | Inr fixed \<Rightarrow>
                   (let rounded = fixed @ ''%''
                    in if Number_lessThan (numLit 30) diff
                       then Inr \<lparr>text' = rounded, cls = ''diff-red''\<rparr>
                       else Inr \<lparr>text' = rounded, cls = ''diff-green''\<rparr>)))"

definition calcDiffAbs :: "string \<Rightarrow> string \<Rightarrow> error + diffObj" where
  "calcDiffAbs prev curr' =
     (let pn = parseFloat (removeCommas prev);
          cn = parseFloat (removeCommas curr')
      in deviationOf pn cn)"

section \<open>Loading the record store\<close>

text \<open>
  A row of \<open>XLSX.utils.sheet_to_json(sheet, { defval: '' })\<close> is an object from column
  names to cell values, with the empty string for a blank cell; a name that is no
  column of the sheet is \<open>undefined\<close>.
\<close>

type_synonym rawRow = "string \<Rightarrow> jsval"

text \<open>
  \<^verbatim>\<open>      prevData = json.map(row => {
        const name = row.Name || row.name || row['Account Name'] || row['Customer'] || '';
        const meter = row['Meter No.'] || row['Meter No'] || row['MeterNo'] || row['Meter'] || row.Meter || '';
        const cons = row.Consumption || row['Consumption Qty'] || row.Qty || row['Prev Consumption'] || row['Prev'] || '';
        return { Name: String(name).trim(), Meter: String(meter).trim(), CleanMeter: cleanMeter(meter), Consumption: String(cons).trim() };
      });\<close>
\<close>

definition loadRow :: "rawRow \<Rightarrow> prevRecord" where
  "loadRow row =
     (let name = or_else (or_else (or_else (or_else (row ''Name'') (row ''name''))
                   (row ''Account Name'')) (row ''Customer'')) (Str []);
          meter = or_else (or_else (or_else (or_else (or_else (row ''Meter No.'')
                    (row ''Meter No'')) (row ''MeterNo'')) (row ''Meter'')) (row ''Meter''))
                    (Str []);
          cons = or_else (or_else (or_else (or_else (or_else (row ''Consumption'')
                   (row ''Consumption Qty'')) (row ''Qty'')) (row ''Prev Consumption''))
                   (row ''Prev'')) (Str [])
      in \<lparr>Name = trim (ToString name), Meter = trim (ToString meter),
          CleanMeter = cleanMeter meter, Consumption = trim (ToString cons)\<rparr>)"

definition loadRows :: "rawRow list \<Rightarrow> prevRecord list" where
  "loadRows json = map loadRow json"

section \<open>The wording of the specification\<close>

text \<open>
  The definitions of this section follow the sentences of the specification, not the
  program; the theorems compare them with the program.
\<close>

subsection \<open>The rows of the export\<close>

text \<open>The row of a capture entry: the name, identifier and prior consumption of the
  matched record, or the placeholder for all three; the current consumption is the
  consumption field of the entry.\<close>

definition captureRow :: "prevRecord list \<Rightarrow> ocrEntry \<Rightarrow> exportRow" where
  "captureRow prevData r =
     (case findPrevByOCR prevData (meterOCR r) of
        Some p \<Rightarrow> \<lparr>row_Name = Name p, row_MeterNo = Meter p,
                   row_PrevConsumption = Consumption p,
                   row_CurrentConsumption = consumptionOCR r\<rparr>
      | None \<Rightarrow> \<lparr>row_Name = ''Not Found'', row_MeterNo = ''Not Found'',
                 row_PrevConsumption = ''Not Found'',
                 row_CurrentConsumption = consumptionOCR r\<rparr>)"

text \<open>The row of a prior record that no capture matched: a blank current consumption.\<close>

definition priorRow :: "prevRecord \<Rightarrow> exportRow" where
  "priorRow p = \<lparr>row_Name = Name p, row_MeterNo = Meter p,
                 row_PrevConsumption = Consumption p, row_CurrentConsumption = []\<rparr>"

text \<open>The canonical identifiers matched by the capture entries.\<close>

definition matchedIdentifiers :: "prevRecord list \<Rightarrow> ocrEntry list \<Rightarrow> string set" where
  "matchedIdentifiers prevData ocrResults =
     set (map CleanMeter
            (List.map_filter (\<lambda>r. findPrevByOCR prevData (meterOCR r)) ocrResults))"

subsection \<open>The fallback stage of the matcher\<close>

text \<open>The fallback stage as the specification describes it: the first record whose
  digits end with the last six digits of the input, nothing for an input without
  digits.\<close>

definition fallbackBySuffix :: "prevRecord list \<Rightarrow> string \<Rightarrow> prevRecord option" where
  "fallbackBySuffix prevData m =
     (let digits = digitsOf (cleanMeter (Str m));
          last6 = slice6 digits
      in if digits = [] then None
         else List.find (\<lambda>r. suffix last6 (digitsOf (CleanMeter r))) prevData)"

subsection \<open>The columns of a row\<close>

definition nameAliases :: "string list" where
  "nameAliases = [''Name'', ''name'', ''Account Name'', ''Customer'']"

definition identifierAliases :: "string list" where
  "identifierAliases = [''Meter No.'', ''Meter No'', ''MeterNo'', ''Meter'']"

definition consumptionAliases :: "string list" where
  "consumptionAliases =
     [''Consumption'', ''Consumption Qty'', ''Qty'', ''Prev Consumption'', ''Prev'']"

text \<open>The value of the first alias that is a column of the row, the empty string when
  none is: the reading of the specification.\<close>

definition firstPresent :: "rawRow \<Rightarrow> string list \<Rightarrow> jsval" where
  "firstPresent row aliases =
     (case List.find (\<lambda>k. row k \<noteq> Undefined) aliases of
        Some k \<Rightarrow> row k
      | None \<Rightarrow> Str [])"

text \<open>The value of the first alias whose cell is truthy, the empty string when none is.\<close>

definition firstTruthy :: "rawRow \<Rightarrow> string list \<Rightarrow> jsval" where
  "firstTruthy row aliases =
     (case List.find (\<lambda>k. truthy (row k)) aliases of
        Some k \<Rightarrow> row k
      | None \<Rightarrow> Str [])"

subsection \<open>The deviation\<close>

text \<open>\<open>abs((current - prior) / prior) * 100\<close>, and a value rounded to one decimal place
  (\<open>Math.round(x * 10) / 10\<close>), on Numbers.\<close>

definition deviation :: "number \<Rightarrow> number \<Rightarrow> number" where
  "deviation prior current =
     Math_abs (Number_multiply (Number_divide (Number_subtract current prior) prior)
                 (numLit 100))"

definition roundedToTenth :: "number \<Rightarrow> number" where
  "roundedToTenth x = Number_divide (Math_round (Number_multiply x (numLit 10))) (numLit 10)"

text \<open>The deviation with the commas removed from the prior value only, as the
  specification has it.\<close>

definition deviationPriorCommasOnly :: "string \<Rightarrow> string \<Rightarrow> error + diffObj" where
  "deviationPriorCommasOnly prev curr' =
     deviationOf (parseFloat (removeCommas prev)) (parseFloat curr')"

section \<open>Facts about strings\<close>

lemma dropLeading_none:
  "List.find (\<lambda>w. w \<noteq> [] \<and> prefix w s) ws = None \<Longrightarrow> dropLeading ws s = s"
  by (simp add: dropLeading.simps)

lemma white_space_heads:
  assumes "w \<in> set white_space"
  shows "\<not> plain_char (hd w) \<and> \<not> plain_char (last w)"
  using assms by (auto simp: white_space_def plain_char_def)

lemma dropLeading_plain:
  assumes "\<forall>w \<in> set ws. w \<noteq> [] \<longrightarrow> \<not> plain_char (hd w)" and "s = [] \<or> plain_char (hd s)"
  shows "dropLeading ws s = s"
proof (rule dropLeading_none)
  have "\<not> (w \<noteq> [] \<and> prefix w s)" if "w \<in> set ws" for w
  proof
    assume h: "w \<noteq> [] \<and> prefix w s"
    then have "s \<noteq> []" by auto
    with h have "hd w = hd s" by (cases w; cases s) auto
    with assms that h \<open>s \<noteq> []\<close> show False by auto
  qed
  then show "List.find (\<lambda>w. w \<noteq> [] \<and> prefix w s) ws = None"
    by (auto simp: find_None_iff)
qed

lemma trim_plain:
  assumes "\<forall>c \<in> set s. plain_char c"
  shows "trim s = s"
proof -
  have a: "trimStart s = s"
    unfolding trimStart_def
  proof (rule dropLeading_plain)
    show "\<forall>w \<in> set white_space. w \<noteq> [] \<longrightarrow> \<not> plain_char (hd w)"
      using white_space_heads by auto
    show "s = [] \<or> plain_char (hd s)"
      using assms by (cases s) auto
  qed
  have "dropLeading (map rev white_space) (rev s) = rev s"
  proof (rule dropLeading_plain)
    show "\<forall>w \<in> set (map rev white_space). w \<noteq> [] \<longrightarrow> \<not> plain_char (hd w)"
      using white_space_heads by (auto simp: hd_rev)
    show "rev s = [] \<or> plain_char (hd (rev s))"
      using assms by (cases "s = []") (auto simp: hd_rev)
  qed
  then have "trimEnd s = s" by (simp add: trimEnd_def)
  with a show ?thesis by (simp add: trim_def)
qed

lemma toUpperCase_keep_plain:
  assumes "c \<in> set (toUpperCase (filter keep_char s))"
  shows "plain_char c"
  using assms
  by (auto simp: toUpperCase_def keep_char_def is_upper_def is_lower_def is_digit_def
      plain_char_def Let_def)

lemma cleanMeter_Str: "cleanMeter (Str s) = toUpperCase (filter keep_char s)"
proof (cases "s = []")
  case True
  then show ?thesis by (simp add: cleanMeter_def truthy_def toUpperCase_def)
next
  case False
  have "trim (toUpperCase (filter keep_char s)) = toUpperCase (filter keep_char s)"
    by (rule trim_plain) (auto dest: toUpperCase_keep_plain)
  with False show ?thesis by (simp add: cleanMeter_def truthy_def ToString_def)
qed

text \<open>
  Claim C4, as stated: \<open>normalize("ajp-15/24-392020")\<close> is \<open>"AJP-15-24-392020"\<close>. The
  program removes the slash and puts nothing in its place, so the result has no hyphen
  between \<open>15\<close> and \<open>24\<close>.
\<close>

theorem cleanMeter_slash_counterexample:
  "cleanMeter (Str ''ajp-15/24-392020'') \<noteq> ''AJP-15-24-392020''"
proof -
  have "toUpperCase (filter keep_char ''ajp-15/24-392020'') = ''AJP-1524-392020''"
    by code_simp
  then show ?thesis by (simp add: cleanMeter_Str)
qed

text \<open>
  Claim C4, amended: \<open>normalize("ajp-15/24-392020")\<close> is \<open>"AJP-1524-392020"\<close>, and on every
  string the normalizer is the removal of every character that is not an ASCII letter,
  a digit or a hyphen, followed by the upper-casing of the rest (the trimming changes
  nothing, and the empty string is mapped to itself).
\<close>

theorem cleanMeter_strips_and_uppercases:
  "cleanMeter (Str ''ajp-15/24-392020'') = ''AJP-1524-392020'' \<and>
   (\<forall>s. cleanMeter (Str s) = toUpperCase (filter keep_char s))"
proof -
  have "toUpperCase (filter keep_char ''ajp-15/24-392020'') = ''AJP-1524-392020''"
    by code_simp
  then show ?thesis by (simp add: cleanMeter_Str)
qed

section \<open>The matcher\<close>

lemma slice6_Nil_iff: "slice6 d = [] \<longleftrightarrow> d = []"
proof -
  have "length d \<le> length d - 6 \<longleftrightarrow> length d = 0" by arith
  then show ?thesis by (simp add: slice6_def)
qed

lemma slice6_short: "length d \<le> 6 \<Longrightarrow> slice6 d = d"
  by (simp add: slice6_def)

lemma slice6_suffix: "suffix (slice6 d) d"
  by (simp add: slice6_def suffix_drop)

lemma slice6_eq_six:
  assumes "length l = 6"
  shows "slice6 d = l \<longleftrightarrow> suffix l d"
proof
  assume "slice6 d = l"
  then show "suffix l d" using slice6_suffix [of d] by simp
next
  assume "suffix l d"
  then obtain xs where "d = xs @ l" by (auto simp: suffix_def)
  with assms show "slice6 d = l" by (simp add: slice6_def)
qed

lemma slice6_eq_short:
  assumes "length l < 6"
  shows "slice6 d = l \<longleftrightarrow> d = l"
proof
  assume h: "slice6 d = l"
  have "length d \<le> 6"
  proof (rule ccontr)
    assume "\<not> length d \<le> 6"
    then have "length (slice6 d) = 6" by (simp add: slice6_def)
    with h assms show False by simp
  qed
  with h show "d = l" by (simp add: slice6_short)
next
  assume "d = l"
  with assms show "slice6 d = l" by (simp add: slice6_short)
qed

lemma findPrevByOCR_no_exact:
  assumes "List.find (\<lambda>r. CleanMeter r = cleanMeter (Str m)) prevData = None"
  shows "findPrevByOCR prevData m =
           (if digitsOf (cleanMeter (Str m)) = [] then None
            else List.find (\<lambda>r. slice6 (digitsOf (CleanMeter r)) =
                                 slice6 (digitsOf (cleanMeter (Str m)))) prevData)"
proof (cases "cleanMeter (Str m) = []")
  case True
  then show ?thesis by (simp add: findPrevByOCR_def digitsOf_def)
next
  case False
  with assms show ?thesis
    by (simp add: findPrevByOCR_def Let_def slice6_Nil_iff)
qed

lemma find_exact_Some:
  assumes "r \<in> set prevData" and "CleanMeter r = c"
  shows "\<exists>r'. List.find (\<lambda>x. CleanMeter x = c) prevData = Some r' \<and>
              r' \<in> set prevData \<and> CleanMeter r' = c"
proof (cases "List.find (\<lambda>x. CleanMeter x = c) prevData")
  case None
  with assms show ?thesis by (auto simp: find_None_iff)
next
  case (Some r')
  then show ?thesis by (auto simp: find_Some_iff)
qed

text \<open>
  Claim C8: the matcher normalizes its input and returns nothing when the normalized
  form is empty; otherwise, when a record of the store has the normalized input as its
  canonical identifier, it returns the first such record of the store (that record,
  when no other record has the identifier), which is what the search of the exact stage
  finds. The input \<open>"ajp 1524 392020"\<close> is normalized to \<open>"AJP1524392020"\<close>.
\<close>

theorem findPrevByOCR_exact_stage:
  "(cleanMeter (Str m) = [] \<longrightarrow> findPrevByOCR prevData m = None) \<and>
   (cleanMeter (Str m) \<noteq> [] \<and> r \<in> set prevData \<and> CleanMeter r = cleanMeter (Str m) \<longrightarrow>
      (\<exists>r'. findPrevByOCR prevData m = Some r' \<and> r' \<in> set prevData \<and>
            CleanMeter r' = cleanMeter (Str m) \<and>
            List.find (\<lambda>x. CleanMeter x = cleanMeter (Str m)) prevData = Some r' \<and>
            ((\<forall>x \<in> set prevData. CleanMeter x = cleanMeter (Str m) \<longrightarrow> x = r) \<longrightarrow> r' = r))) \<and>
   cleanMeter (Str ''ajp 1524 392020'') = ''AJP1524392020''"
proof (intro conjI impI)
  assume "cleanMeter (Str m) = []"
  then show "findPrevByOCR prevData m = None" by (simp add: findPrevByOCR_def)
next
  assume h: "cleanMeter (Str m) \<noteq> [] \<and> r \<in> set prevData \<and> CleanMeter r = cleanMeter (Str m)"
  then obtain r' where r': "List.find (\<lambda>x. CleanMeter x = cleanMeter (Str m)) prevData = Some r'"
      "r' \<in> set prevData" "CleanMeter r' = cleanMeter (Str m)"
    using find_exact_Some [of r prevData "cleanMeter (Str m)"] by blast
  with h have "findPrevByOCR prevData m = Some r'" by (simp add: findPrevByOCR_def)
  with r' show "\<exists>r'. findPrevByOCR prevData m = Some r' \<and> r' \<in> set prevData \<and>
            CleanMeter r' = cleanMeter (Str m) \<and>
            List.find (\<lambda>x. CleanMeter x = cleanMeter (Str m)) prevData = Some r' \<and>
            ((\<forall>x \<in> set prevData. CleanMeter x = cleanMeter (Str m) \<longrightarrow> x = r) \<longrightarrow> r' = r)"
    by auto
next
  show "cleanMeter (Str ''ajp 1524 392020'') = ''AJP1524392020''"
    by code_simp
qed

theorem findPrevByOCR_exact_stage_witness:
  "findPrevByOCR
     [\<lparr>Name = ''Ann'', Meter = ''AJP 1524 392020'', CleanMeter = ''AJP1524392020'',
       Consumption = ''100''\<rparr>] ''ajp 1524 392020'' =
   Some \<lparr>Name = ''Ann'', Meter = ''AJP 1524 392020'', CleanMeter = ''AJP1524392020'',
          Consumption = ''100''\<rparr> \<and>
   findPrevByOCR
     [\<lparr>Name = ''Ann'', Meter = ''AJP 1524 392020'', CleanMeter = ''AJP1524392020'',
       Consumption = ''100''\<rparr>] ''//'' = None"
proof -
  let ?r = "\<lparr>Name = ''Ann'', Meter = ''AJP 1524 392020'', CleanMeter = ''AJP1524392020'',
             Consumption = ''100''\<rparr>"
  have c: "cleanMeter (Str ''ajp 1524 392020'') = ''AJP1524392020''"
    using findPrevByOCR_exact_stage [of "[]" "[]" ?r] by simp
  have e: "cleanMeter (Str ''//'') = []" by code_simp
  have "\<exists>r'. findPrevByOCR [?r] ''ajp 1524 392020'' = Some r' \<and> r' \<in> set [?r]"
    using findPrevByOCR_exact_stage [of "''ajp 1524 392020''" "[?r]" ?r] c by auto
  moreover have "findPrevByOCR [?r] ''//'' = None"
    using findPrevByOCR_exact_stage [of "''//''" "[?r]" ?r] e by simp
  ultimately show ?thesis by auto
qed

text \<open>
  Claim C9: when no record has the normalized input as its canonical identifier and the
  normalized input has between one and five digits, the last-six slice of the input's
  digits is all of them, a record's slice equals it exactly when the record's digits are
  the input's digits, and the matcher returns the first record whose digits are exactly
  the input's digits. For the input \<open>"123"\<close>, a record with the digits \<open>999123\<close> is not
  matched.
\<close>

theorem findPrevByOCR_few_digits:
  assumes "List.find (\<lambda>r. CleanMeter r = cleanMeter (Str m)) prevData = None"
    and "1 \<le> length (digitsOf (cleanMeter (Str m)))"
    and "length (digitsOf (cleanMeter (Str m))) \<le> 5"
  shows "slice6 (digitsOf (cleanMeter (Str m))) = digitsOf (cleanMeter (Str m)) \<and>
         (\<forall>c. (slice6 (digitsOf c) = slice6 (digitsOf (cleanMeter (Str m)))) =
              (digitsOf c = digitsOf (cleanMeter (Str m)))) \<and>
         findPrevByOCR prevData m =
           List.find (\<lambda>r. digitsOf (CleanMeter r) = digitsOf (cleanMeter (Str m))) prevData"
proof -
  let ?d = "digitsOf (cleanMeter (Str m))"
  have s: "slice6 ?d = ?d" using assms(3) by (simp add: slice6_short)
  have q: "(slice6 (digitsOf c) = slice6 ?d) = (digitsOf c = ?d)" for c
    using assms(3) slice6_eq_short [of ?d "digitsOf c"] by (simp add: s)
  have "?d \<noteq> []" using assms(2) by auto
  with assms(1) have f: "findPrevByOCR prevData m =
      List.find (\<lambda>r. slice6 (digitsOf (CleanMeter r)) = slice6 ?d) prevData"
    by (simp add: findPrevByOCR_no_exact)
  show ?thesis
  proof (intro conjI allI)
    show "slice6 ?d = ?d" by (rule s)
    show "(slice6 (digitsOf c) = slice6 ?d) = (digitsOf c = ?d)" for c by (rule q)
    show "findPrevByOCR prevData m = List.find (\<lambda>r. digitsOf (CleanMeter r) = ?d) prevData"
      using f by (simp only: q)
  qed
qed

theorem findPrevByOCR_few_digits_witness:
  "findPrevByOCR
     [\<lparr>Name = ''Cy'', Meter = ''999123'', CleanMeter = ''999123'', Consumption = ''7''\<rparr>,
      \<lparr>Name = ''Di'', Meter = ''A-1-23'', CleanMeter = ''A-1-23'', Consumption = ''9''\<rparr>]
     ''123'' =
   Some \<lparr>Name = ''Di'', Meter = ''A-1-23'', CleanMeter = ''A-1-23'', Consumption = ''9''\<rparr> \<and>
   findPrevByOCR
     [\<lparr>Name = ''Cy'', Meter = ''999123'', CleanMeter = ''999123'', Consumption = ''7''\<rparr>]
     ''123'' = None"
proof -
  let ?c = "\<lparr>Name = ''Cy'', Meter = ''999123'', CleanMeter = ''999123'', Consumption = ''7''\<rparr>"
  let ?d = "\<lparr>Name = ''Di'', Meter = ''A-1-23'', CleanMeter = ''A-1-23'', Consumption = ''9''\<rparr>"
  have c: "cleanMeter (Str ''123'') = ''123''" by code_simp
  have d: "digitsOf ''123'' = ''123''" "digitsOf ''999123'' = ''999123''"
    "digitsOf ''A-1-23'' = ''123''" by code_simp+
  have "findPrevByOCR [?c, ?d] ''123'' =
        List.find (\<lambda>r. digitsOf (CleanMeter r) = digitsOf (cleanMeter (Str ''123''))) [?c, ?d]"
    using findPrevByOCR_few_digits [of "''123''" "[?c, ?d]"] by (simp add: c d)
  moreover have "findPrevByOCR [?c] ''123'' =
        List.find (\<lambda>r. digitsOf (CleanMeter r) = digitsOf (cleanMeter (Str ''123''))) [?c]"
    using findPrevByOCR_few_digits [of "''123''" "[?c]"] by (simp add: c d)
  ultimately show ?thesis by (simp add: c d)
qed

text \<open>
  Claim C2, as stated: the fallback stage returns the first record whose digits end with
  the last six digits of the input. For the input \<open>"123"\<close> and a store whose only record
  has the canonical identifier \<open>"999123"\<close>, the input has a digit and no exact match,
  the record's digits end with \<open>123\<close>, and the program returns nothing.
\<close>

theorem fallbackBySuffix_counterexample:
  "digitsOf (cleanMeter (Str ''123'')) \<noteq> [] \<and>
   List.find (\<lambda>r. CleanMeter r = cleanMeter (Str ''123''))
     [\<lparr>Name = ''Cy'', Meter = ''999123'', CleanMeter = ''999123'', Consumption = ''7''\<rparr>] = None \<and>
   fallbackBySuffix
     [\<lparr>Name = ''Cy'', Meter = ''999123'', CleanMeter = ''999123'', Consumption = ''7''\<rparr>] ''123'' =
     Some \<lparr>Name = ''Cy'', Meter = ''999123'', CleanMeter = ''999123'', Consumption = ''7''\<rparr> \<and>
   findPrevByOCR
     [\<lparr>Name = ''Cy'', Meter = ''999123'', CleanMeter = ''999123'', Consumption = ''7''\<rparr>] ''123'' =
     None"
proof -
  have c: "cleanMeter (Str ''123'') = ''123''" by code_simp
  have d: "digitsOf ''123'' = ''123''" "digitsOf ''999123'' = ''999123''" by code_simp+
  have s: "slice6 ''123'' = ''123''" "slice6 ''999123'' = ''999123''"
    by (simp_all add: slice6_def)
  have x: "suffix ''123'' ''999123''"
    by (rule suffixI [of _ "''999''"]) simp
  show ?thesis
    by (simp add: fallbackBySuffix_def findPrevByOCR_def c d s x Let_def)
qed

text \<open>
  Claim C2, amended: when no record has the normalized input as its canonical
  identifier, the matcher returns nothing for an input without digits, and otherwise the
  first record of the store whose digits end with the last six digits of the input and,
  when the input has fewer than six digits, are exactly the digits of the input.
\<close>

theorem findPrevByOCR_fallback_stage:
  assumes "List.find (\<lambda>r. CleanMeter r = cleanMeter (Str m)) prevData = None"
  shows "findPrevByOCR prevData m =
           (let digits = digitsOf (cleanMeter (Str m));
                last6 = slice6 digits
            in if digits = [] then None
               else List.find (\<lambda>r. suffix last6 (digitsOf (CleanMeter r)) \<and>
                                    (length digits < 6 \<longrightarrow> digitsOf (CleanMeter r) = digits))
                      prevData)"
proof -
  let ?d = "digitsOf (cleanMeter (Str m))"
  have "(slice6 c = slice6 ?d) = (suffix (slice6 ?d) c \<and> (length ?d < 6 \<longrightarrow> c = ?d))" for c
  proof (cases "length ?d < 6")
    case True
    then have "slice6 ?d = ?d" by (simp add: slice6_short)
    with True show ?thesis using slice6_eq_short [of ?d c] by auto
  next
    case False
    then have "length (slice6 ?d) = 6" by (simp add: slice6_def)
    with False show ?thesis using slice6_eq_six [of "slice6 ?d" c] by simp
  qed
  then show ?thesis
    using assms by (simp add: findPrevByOCR_no_exact Let_def)
qed

theorem findPrevByOCR_fallback_stage_witness:
  "findPrevByOCR
     [\<lparr>Name = ''Bob'', Meter = ''XY-000392020'', CleanMeter = ''XY-000392020'',
       Consumption = ''100''\<rparr>] ''zz392020'' =
   Some \<lparr>Name = ''Bob'', Meter = ''XY-000392020'', CleanMeter = ''XY-000392020'',
          Consumption = ''100''\<rparr>"
proof -
  let ?b = "\<lparr>Name = ''Bob'', Meter = ''XY-000392020'', CleanMeter = ''XY-000392020'',
             Consumption = ''100''\<rparr>"
  have c: "cleanMeter (Str ''zz392020'') = ''ZZ392020''" by code_simp
  have d: "digitsOf ''ZZ392020'' = ''392020''" "digitsOf ''XY-000392020'' = ''000392020''"
    by code_simp+
  have s: "slice6 ''392020'' = ''392020''" by (simp add: slice6_def)
  have x: "suffix ''392020'' ''000392020''"
    by (rule suffixI [of _ "''000''"]) simp
  have "List.find (\<lambda>r. CleanMeter r = cleanMeter (Str ''zz392020'')) [?b] = None"
    by (simp add: c)
  from findPrevByOCR_fallback_stage [OF this] show ?thesis
    by (simp add: c d s x Let_def)
qed

section \<open>The export\<close>

lemma orEmpty_id: "orEmpty a = a"
  by (simp add: orEmpty_def)

lemma exportOcrStep_captureRow:
  "exportOcrStep prevData (rows, keys) r =
     (rows @ [captureRow prevData r],
      keys \<union> (matchedIdentifiers prevData [r] - {[]}))"
  by (cases "findPrevByOCR prevData (meterOCR r)")
    (auto simp: exportOcrStep_def captureRow_def matchedIdentifiers_def orEmpty_id
      List.map_filter_simps)

lemma matchedIdentifiers_Cons:
  "matchedIdentifiers prevData (r # rs) =
     matchedIdentifiers prevData [r] \<union> matchedIdentifiers prevData rs"
  by (cases "findPrevByOCR prevData (meterOCR r)")
    (auto simp: matchedIdentifiers_def List.map_filter_simps)

lemma foldl_exportOcrStep:
  "foldl (exportOcrStep prevData) (rows, keys) ocrResults =
     (rows @ map (captureRow prevData) ocrResults,
      keys \<union> (matchedIdentifiers prevData ocrResults - {[]}))"
proof (induction ocrResults arbitrary: rows keys)
  case Nil
  then show ?case by (simp add: matchedIdentifiers_def List.map_filter_simps)
next
  case (Cons r rs)
  have "matchedIdentifiers prevData (r # rs) - {[]} =
        (matchedIdentifiers prevData [r] - {[]}) \<union> (matchedIdentifiers prevData rs - {[]})"
    by (subst matchedIdentifiers_Cons) blast
  with Cons show ?case
    by (simp add: exportOcrStep_captureRow Un_assoc)
qed

lemma foldl_exportPrevStep:
  "foldl (exportPrevStep keys) rows ps =
     rows @ map priorRow (filter (\<lambda>p. CleanMeter p \<noteq> [] \<and> CleanMeter p \<notin> keys) ps)"
  by (induction ps arbitrary: rows)
    (simp_all add: exportPrevStep_def priorRow_def orEmpty_id)

text \<open>
  Claim C1: for every record store and capture ledger, the rows of the export are the
  rows of the capture entries in capture order, each with the name, identifier and
  prior consumption of the record the matcher returns for its identifier field, or the
  placeholder \<open>Not Found\<close> for all three, and with the consumption field of the entry as
  the current consumption; followed by one row with a blank current consumption for
  every record of the store, in store order, whose canonical identifier is not empty
  and is not the canonical identifier of a record matched by a capture entry; and no
  other row.
\<close>

theorem exportRowsOf_capture_then_unmatched:
  "exportRowsOf prevData ocrResults =
     map (captureRow prevData) ocrResults @
     map priorRow
       (filter (\<lambda>p. CleanMeter p \<noteq> [] \<and>
                    CleanMeter p \<notin> matchedIdentifiers prevData ocrResults) prevData)"
proof -
  have "filter (\<lambda>p. CleanMeter p \<noteq> [] \<and>
                    CleanMeter p \<notin> {} \<union> (matchedIdentifiers prevData ocrResults - {[]})) prevData =
        filter (\<lambda>p. CleanMeter p \<noteq> [] \<and>
                    CleanMeter p \<notin> matchedIdentifiers prevData ocrResults) prevData"
    by (rule filter_cong) auto
  then show ?thesis
    by (simp add: exportRowsOf_def foldl_exportOcrStep [of prevData "[]" "{}", simplified]
        foldl_exportPrevStep)
qed

theorem exportRowsOf_capture_then_unmatched_witness:
  "exportRowsOf
     [\<lparr>Name = ''Ann'', Meter = ''AJP 1524 392020'', CleanMeter = ''AJP1524392020'',
       Consumption = ''100''\<rparr>,
      \<lparr>Name = ''Bob'', Meter = ''XY-000111222'', CleanMeter = ''XY-000111222'',
       Consumption = ''80''\<rparr>,
      \<lparr>Name = ''Cy'', Meter = ''ZZ-9'', CleanMeter = ''ZZ-9'', Consumption = ''7''\<rparr>]
     [\<lparr>id' = 1, preview = [], rawText = [], meterOCR = ''ajp 1524 392020'',
       consumptionOCR = ''120''\<rparr>,
      \<lparr>id' = 2, preview = [], rawText = [], meterOCR = ''Not Found'',
       consumptionOCR = ''Not Found''\<rparr>] =
   [\<lparr>row_Name = ''Ann'', row_MeterNo = ''AJP 1524 392020'', row_PrevConsumption = ''100'',
      row_CurrentConsumption = ''120''\<rparr>,
    \<lparr>row_Name = ''Not Found'', row_MeterNo = ''Not Found'',
      row_PrevConsumption = ''Not Found'', row_CurrentConsumption = ''Not Found''\<rparr>,
    \<lparr>row_Name = ''Bob'', row_MeterNo = ''XY-000111222'', row_PrevConsumption = ''80'',
      row_CurrentConsumption = []\<rparr>,
    \<lparr>row_Name = ''Cy'', row_MeterNo = ''ZZ-9'', row_PrevConsumption = ''7'',
      row_CurrentConsumption = []\<rparr>]"
proof -
  let ?store = "[\<lparr>Name = ''Ann'', Meter = ''AJP 1524 392020'', CleanMeter = ''AJP1524392020'',
       Consumption = ''100''\<rparr>,
      \<lparr>Name = ''Bob'', Meter = ''XY-000111222'', CleanMeter = ''XY-000111222'',
       Consumption = ''80''\<rparr>,
      \<lparr>Name = ''Cy'', Meter = ''ZZ-9'', CleanMeter = ''ZZ-9'', Consumption = ''7''\<rparr>]"
  have f1: "findPrevByOCR ?store ''ajp 1524 392020'' =
      Some \<lparr>Name = ''Ann'', Meter = ''AJP 1524 392020'', CleanMeter = ''AJP1524392020'',
       Consumption = ''100''\<rparr>"
    by code_simp
  have f2: "findPrevByOCR ?store ''Not Found'' = None"
    by code_simp
  show ?thesis
    using exportRowsOf_capture_then_unmatched [of ?store
      "[\<lparr>id' = 1, preview = [], rawText = [], meterOCR = ''ajp 1524 392020'',
         consumptionOCR = ''120''\<rparr>,
        \<lparr>id' = 2, preview = [], rawText = [], meterOCR = ''Not Found'',
         consumptionOCR = ''Not Found''\<rparr>]"]
    by (simp add: captureRow_def priorRow_def matchedIdentifiers_def List.map_filter_simps
        f1 f2)
qed

section \<open>Loading the record store\<close>

lemma firstTruthy_Nil: "firstTruthy row [] = Str []"
  by (simp add: firstTruthy_def)

lemma firstTruthy_Cons:
  "firstTruthy row (k # ks) = (if truthy (row k) then row k else firstTruthy row ks)"
  by (simp add: firstTruthy_def)

text \<open>
  Claim C5, as stated: each field is taken from the first alias that is a column of the
  row. In a row whose column \<open>Name\<close> holds the empty string and whose column \<open>name\<close>
  holds \<open>Bob\<close>, the first present alias holds the empty string, and the loaded name is
  \<open>Bob\<close>.
\<close>

theorem loadRow_first_present_counterexample:
  "trim (ToString (firstPresent ((\<lambda>k. Undefined)(''Name'' := Str [], ''name'' := Str ''Bob''))
           nameAliases)) = [] \<and>
   Name (loadRow ((\<lambda>k. Undefined)(''Name'' := Str [], ''name'' := Str ''Bob''))) = ''Bob''"
proof -
  have t: "trim [] = []" "trim ''Bob'' = ''Bob''"
    by (rule trim_plain, simp add: plain_char_def)+
  show ?thesis
    by (simp add: firstPresent_def nameAliases_def loadRow_def or_else_def truthy_def
        ToString_def t)
qed

text \<open>
  Claim C5, amended: each of name, identifier and consumption is taken from the first
  column among its alias list, compared case-sensitively, whose value is truthy (a
  non-empty string, a number other than zero and not-a-number, or \<open>true\<close>), and is the
  empty string when there is none; the canonical identifier is the normalized value of
  the same column. A row whose column \<open>Name\<close> holds the empty string and whose column
  \<open>name\<close> holds \<open>Bob\<close> is loaded with the name \<open>Bob\<close>.
\<close>

theorem loadRow_first_truthy:
  "loadRow row =
     \<lparr>Name = trim (ToString (firstTruthy row nameAliases)),
      Meter = trim (ToString (firstTruthy row identifierAliases)),
      CleanMeter = cleanMeter (firstTruthy row identifierAliases),
      Consumption = trim (ToString (firstTruthy row consumptionAliases))\<rparr> \<and>
   Name (loadRow ((\<lambda>k. Undefined)(''Name'' := Str [], ''name'' := Str ''Bob''))) = ''Bob''"
proof -
  have n: "or_else (or_else (or_else (or_else (row ''Name'') (row ''name''))
             (row ''Account Name'')) (row ''Customer'')) (Str []) =
           firstTruthy row nameAliases"
    by (simp add: or_else_def firstTruthy_Cons firstTruthy_Nil nameAliases_def)
  have m: "or_else (or_else (or_else (or_else (or_else (row ''Meter No.'')
             (row ''Meter No'')) (row ''MeterNo'')) (row ''Meter'')) (row ''Meter''))
             (Str []) = firstTruthy row identifierAliases"
    by (simp add: or_else_def firstTruthy_Cons firstTruthy_Nil identifierAliases_def)
  have c: "or_else (or_else (or_else (or_else (or_else (row ''Consumption'')
             (row ''Consumption Qty'')) (row ''Qty'')) (row ''Prev Consumption''))
             (row ''Prev'')) (Str []) = firstTruthy row consumptionAliases"
    by (simp add: or_else_def firstTruthy_Cons firstTruthy_Nil consumptionAliases_def)
  have t: "trim ''Bob'' = ''Bob''"
    by (rule trim_plain) (simp add: plain_char_def)
  have "Name (loadRow ((\<lambda>k. Undefined)(''Name'' := Str [], ''name'' := Str ''Bob''))) = ''Bob''"
    by (simp add: loadRow_def or_else_def truthy_def ToString_def t)
  then show ?thesis
    by (simp add: loadRow_def Let_def n m c)
qed

section \<open>Facts about the rounding\<close>

text \<open>
  The exponent found by \<open>floor_log2\<close> is that of the binade of its argument, and a
  rounded value is within half a unit in the last place of the exact one.
\<close>

lemma round_half_even_nearest: "\<bar>of_int (round_half_even q) - q\<bar> \<le> 1 / 2"
proof -
  have "of_int \<lfloor>q\<rfloor> \<le> q" "q < of_int \<lfloor>q\<rfloor> + 1" by linarith+
  then show ?thesis
    by (auto simp: round_half_even_def Let_def)
qed

lemma floor_log2_bounds:
  assumes "0 < a"
  shows "2 powi floor_log2 a \<le> a \<and> a < 2 powi (floor_log2 a + 1)"
proof (cases "1 \<le> a")
  case True
  let ?n = "\<lfloor>a\<rfloor>"
  let ?b = "bitlen ?n"
  from True have n: "0 < ?n" by simp
  from bitlen_bounds [OF n] have b: "2 ^ nat (?b - 1) \<le> ?n" "?n < 2 ^ nat ?b" by simp_all
  from n have b1: "1 \<le> ?b" using bitlen_nonneg [of ?n] bitlen_eq_zero_iff [of ?n] by linarith
  have "(2::rat) ^ nat (?b - 1) = of_int (2 ^ nat (?b - 1))" by simp
  also have "\<dots> \<le> of_int ?n" using b(1) by (simp only: of_int_le_iff)
  also have "\<dots> \<le> a" by simp
  finally have lo: "(2::rat) ^ nat (?b - 1) \<le> a" .
  have "?n + 1 \<le> 2 ^ nat ?b" using b(2) by simp
  then have "(of_int (?n + 1) :: rat) \<le> of_int (2 ^ nat ?b)" by (simp only: of_int_le_iff)
  moreover have "a < of_int (?n + 1)" by linarith
  ultimately have hi: "a < (2::rat) ^ nat ?b" by simp
  from b1 have "(2::rat) powi (?b - 1) = 2 ^ nat (?b - 1)" "(2::rat) powi ?b = 2 ^ nat ?b"
    by (simp_all add: power_int_def)
  with lo hi True show ?thesis by (simp add: floor_log2_def)
next
  case False
  let ?c = "1 / a"
  let ?x = "\<lceil>?c\<rceil> - 1"
  let ?b = "bitlen ?x"
  from False assms have c1: "1 < ?c" by simp
  then have x: "0 < ?x" by linarith
  from bitlen_bounds [OF x] have b: "2 ^ nat (?b - 1) \<le> ?x" "?x < 2 ^ nat ?b" by simp_all
  from x have b1: "1 \<le> ?b" using bitlen_nonneg [of ?x] bitlen_eq_zero_iff [of ?x] by linarith
  have "\<lceil>?c\<rceil> \<le> 2 ^ nat ?b" using b(2) by simp
  then have "(of_int \<lceil>?c\<rceil> :: rat) \<le> of_int (2 ^ nat ?b)"
    by (rule of_int_le_iff [THEN iffD2])
  moreover have "?c \<le> of_int \<lceil>?c\<rceil>" by (rule le_of_int_ceiling)
  ultimately have "?c \<le> of_int (2 ^ nat ?b)" by (rule order_trans [rotated])
  then have chi: "?c \<le> (2::rat) ^ nat ?b" by simp
  have "(2::rat) ^ nat (?b - 1) = of_int (2 ^ nat (?b - 1))" by simp
  also have "\<dots> \<le> of_int ?x" using b(1) by (simp only: of_int_le_iff)
  also have "\<dots> < ?c" by linarith
  finally have clo: "(2::rat) ^ nat (?b - 1) < ?c" .
  from chi assms have lo: "1 / 2 ^ nat ?b \<le> a"
    by (simp add: field_simps)
  from clo assms have hi: "a < 1 / 2 ^ nat (?b - 1)"
    by (simp add: field_simps)
  from b1 have p1: "(2::rat) powi (- ?b) = 1 / 2 ^ nat ?b"
    by (simp add: power_int_def field_simps)
  from b1 have p2: "(2::rat) powi (- ?b + 1) = 1 / 2 ^ nat (?b - 1)"
    by (simp add: power_int_def field_simps nat_diff_distrib)
  from False lo hi p1 p2 show ?thesis by (simp add: floor_log2_def)
qed

lemma round_binary64_half_ulp:
  assumes "0 < a" and "round_binary64 a = Some v"
  shows "\<bar>v - a\<bar> \<le> 2 powi (max (floor_log2 a) (- 1022) - 53)"
proof -
  let ?e = "max (floor_log2 a) (- 1022)"
  let ?u = "(2::rat) powi (?e - 52)"
  have u: "0 < ?u" by simp
  from assms have v: "v = of_int (round_half_even (a / ?u)) * ?u"
    by (auto simp: round_binary64_def Let_def split: if_splits)
  have "v - a = (of_int (round_half_even (a / ?u)) - a / ?u) * ?u"
    using u by (simp add: v left_diff_distrib)
  then have "\<bar>v - a\<bar> = \<bar>of_int (round_half_even (a / ?u)) - a / ?u\<bar> * ?u"
    using u by (simp only: abs_mult abs_of_pos)
  also have "\<dots> \<le> 1 / 2 * ?u"
    using round_half_even_nearest [of "a / ?u"] u by (intro mult_right_mono) simp_all
  also have "\<dots> = 2 powi (?e - 53)"
    by (simp add: power_int_diff)
  finally show ?thesis .
qed

section \<open>The deviation calculator\<close>

lemma floor_rat_numeral [simp]: "\<lfloor>numeral a / numeral b :: rat\<rfloor> = numeral a div numeral b"
  by (metis floor_divide_of_int_eq of_int_numeral)

lemma ceiling_rat_numeral [simp]:
  "\<lceil>numeral a / numeral b :: rat\<rceil> = - (- numeral a div numeral b)"
  by (metis ceiling_def floor_divide_of_int_eq minus_divide_left of_int_minus of_int_numeral)

lemmas num_eval = mkNumber_def round_binary64_def floor_log2_def round_half_even_def Let_def
  compute_bitlen signedValue_def numLit_def Number_subtract_def unaryMinus_def Math_abs_def
  Math_round_def isFinite_def

lemmas parse_eval = parseFloat_def removeCommas_def trimStart_def dropLeading.simps
  white_space_def splitSign_def strDecimalMV_def is_digit_def decValue_def exponentPart_def

lemma numLit_0: "numLit 0 = Finite False 0"
  by (simp add: num_eval)



lemma toFixed_1_Inr: "\<exists>fixed. toFixed 1 x = Inr fixed"
  by (cases x) (simp_all add: toFixed_def Let_def)


lemma deviationOf_guard:
  assumes "\<not> isFinite pn \<or> Number_equal pn (numLit 0) \<or> \<not> isFinite cn"
  shows "deviationOf pn cn = Inr \<lparr>text' = em_dash, cls = ''diff-gray''\<rparr>"
  using assms by (simp add: deviationOf_def)

lemma deviationOf_value:
  assumes "isFinite pn" and "\<not> Number_equal pn (numLit 0)" and "isFinite cn"
    and "toFixed 1 (roundedToTenth (deviation pn cn)) = Inr fixed"
  shows "deviationOf pn cn =
           Inr \<lparr>text' = fixed @ ''%'',
                cls = (if Number_lessThan (numLit 30) (deviation pn cn)
                       then ''diff-red'' else ''diff-green'')\<rparr>"
  using assms by (simp add: deviationOf_def deviation_def roundedToTenth_def Let_def)

lemma percent_not_dash: "fixed @ ''%'' \<noteq> em_dash"
proof
  assume "fixed @ ''%'' = em_dash"
  then have "last (fixed @ ''%'') = last em_dash" by simp
  then show False by (simp add: em_dash_def)
qed

lemma parse_100: "parseFloat (removeCommas ''100'') = Finite False 100"
  by (simp add: parse_eval num_eval)

lemma parse_130: "parseFloat (removeCommas ''130'') = Finite False 130"
  by (simp add: parse_eval num_eval)


lemma parse_1000: "parseFloat (removeCommas ''1000'') = Finite False 1000"
  by (simp add: parse_eval num_eval)

lemma parse_1300p4: "parseFloat (removeCommas ''1300.4'') = Finite False (2859609841519821 / 2199023255552)"
  by (simp add: parse_eval num_eval)

lemma parse_1c000: "parseFloat (removeCommas ''1,000'') = Finite False 1000"
  by (simp add: parse_eval num_eval)

lemma parse_1c200: "parseFloat (removeCommas ''1,200'') = Finite False 1200"
  by (simp add: parse_eval num_eval)



lemma parse_0: "parseFloat (removeCommas ''0'') = Finite False 0"
  by (simp add: parse_eval num_eval)

lemma parse_50: "parseFloat (removeCommas ''50'') = Finite False 50"
  by (simp add: parse_eval num_eval)

lemma parse_abc: "parseFloat (removeCommas ''abc'') = NaN"
  by (simp add: parse_eval num_eval)

lemma parse_as_given_1c200: "parseFloat ''1,200'' = Finite False 1"
  by (simp add: parse_eval num_eval)











lemma deviation_1000_1300p4: "deviation (Finite False 1000) (Finite False (2859609841519821 / 2199023255552)) = Finite False (8455508300388109 / 281474976710656)"
  by (simp add: deviation_def num_eval)

lemma rounded_1000_1300p4: "roundedToTenth (Finite False (8455508300388109 / 281474976710656)) = Finite False 30"
  by (simp add: roundedToTenth_def num_eval)

lemma fixed_1000_1300p4: "toFixed 1 (Finite False 30) = Inr ''30.0''"
proof -
  have "decDigits 300 = ''300''" by (simp add: decDigits.simps)
  then show ?thesis by (simp add: toFixed_def Let_def)
qed

lemma above_1000_1300p4: "Number_lessThan (numLit 30) (Finite False (8455508300388109 / 281474976710656)) = True"
  by (simp add: num_eval)

lemma deviationOf_1000_1300p4:
  "deviationOf (Finite False 1000) (Finite False (2859609841519821 / 2199023255552)) = Inr \<lparr>text' = ''30.0%'', cls = ''diff-red''\<rparr>"
proof -
  have "toFixed 1 (roundedToTenth (deviation (Finite False 1000) (Finite False (2859609841519821 / 2199023255552)))) = Inr ''30.0''"
    by (simp only: deviation_1000_1300p4 rounded_1000_1300p4 fixed_1000_1300p4)
  from deviationOf_value [OF _ _ _ this] show ?thesis
    by (simp add: isFinite_def numLit_0 signedValue_def deviation_1000_1300p4 above_1000_1300p4)
qed

lemma deviation_1000_1200: "deviation (Finite False 1000) (Finite False 1200) = Finite False 20"
  by (simp add: deviation_def num_eval)

lemma rounded_1000_1200: "roundedToTenth (Finite False 20) = Finite False 20"
  by (simp add: roundedToTenth_def num_eval)

lemma fixed_1000_1200: "toFixed 1 (Finite False 20) = Inr ''20.0''"
proof -
  have "decDigits 200 = ''200''" by (simp add: decDigits.simps)
  then show ?thesis by (simp add: toFixed_def Let_def)
qed

lemma above_1000_1200: "Number_lessThan (numLit 30) (Finite False 20) = False"
  by (simp add: num_eval)

lemma deviationOf_1000_1200:
  "deviationOf (Finite False 1000) (Finite False 1200) = Inr \<lparr>text' = ''20.0%'', cls = ''diff-green''\<rparr>"
proof -
  have "toFixed 1 (roundedToTenth (deviation (Finite False 1000) (Finite False 1200))) = Inr ''20.0''"
    by (simp only: deviation_1000_1200 rounded_1000_1200 fixed_1000_1200)
  from deviationOf_value [OF _ _ _ this] show ?thesis
    by (simp add: isFinite_def numLit_0 signedValue_def deviation_1000_1200 above_1000_1200)
qed

lemma deviation_1000_1: "deviation (Finite False 1000) (Finite False 1) = Finite False (3514918771674317 / 35184372088832)"
  by (simp add: deviation_def num_eval)

lemma rounded_1000_1: "roundedToTenth (Finite False (3514918771674317 / 35184372088832)) = Finite False (3514918771674317 / 35184372088832)"
  by (simp add: roundedToTenth_def num_eval)

lemma fixed_1000_1: "toFixed 1 (Finite False (3514918771674317 / 35184372088832)) = Inr ''99.9''"
proof -
  have "decDigits 999 = ''999''" by (simp add: decDigits.simps)
  then show ?thesis by (simp add: toFixed_def Let_def)
qed

lemma above_1000_1: "Number_lessThan (numLit 30) (Finite False (3514918771674317 / 35184372088832)) = True"
  by (simp add: num_eval)

lemma deviationOf_1000_1:
  "deviationOf (Finite False 1000) (Finite False 1) = Inr \<lparr>text' = ''99.9%'', cls = ''diff-red''\<rparr>"
proof -
  have "toFixed 1 (roundedToTenth (deviation (Finite False 1000) (Finite False 1))) = Inr ''99.9''"
    by (simp only: deviation_1000_1 rounded_1000_1 fixed_1000_1)
  from deviationOf_value [OF _ _ _ this] show ?thesis
    by (simp add: isFinite_def numLit_0 signedValue_def deviation_1000_1 above_1000_1)
qed





lemma removeCommas_idem: "removeCommas (removeCommas s) = removeCommas s"
  by (simp add: removeCommas_def)

text \<open>
  Claim C3, as stated: the commas are removed from the prior value only, and the current
  value is parsed as it is given. For the prior value \<open>1,000\<close> and the current value
  \<open>1,200\<close> the program returns \<open>20.0%\<close>, below the threshold; with the current value
  parsed as given (\<open>parseFloat\<close> stops at the comma and gives 1) the result would be
  \<open>99.9%\<close>, above the threshold.
\<close>

theorem calcDiffAbs_current_commas_counterexample:
  "calcDiffAbs ''1,000'' ''1,200'' = Inr \<lparr>text' = ''20.0%'', cls = ''diff-green''\<rparr> \<and>
   deviationPriorCommasOnly ''1,000'' ''1,200'' =
     Inr \<lparr>text' = ''99.9%'', cls = ''diff-red''\<rparr>"
  by (simp add: calcDiffAbs_def deviationPriorCommasOnly_def parse_1c000 parse_1c200
      parse_as_given_1c200 deviationOf_1000_1200 deviationOf_1000_1)

text \<open>
  Claim C3, amended: the calculator parses both its arguments as decimal numbers after
  removing the commas of both: the result is that of the two parsed values, it does not
  change when the commas of either argument are removed beforehand, and a result of
  removing commas has no comma.
\<close>

theorem calcDiffAbs_commas_removed_from_both:
  "calcDiffAbs prev curr' =
     deviationOf (parseFloat (removeCommas prev)) (parseFloat (removeCommas curr')) \<and>
   calcDiffAbs (removeCommas prev) curr' = calcDiffAbs prev curr' \<and>
   calcDiffAbs prev (removeCommas curr') = calcDiffAbs prev curr' \<and>
   CHR '','' \<notin> set (removeCommas prev) \<and> CHR '','' \<notin> set (removeCommas curr')"
  by (simp add: calcDiffAbs_def removeCommas_idem) (simp add: removeCommas_def)

theorem calcDiffAbs_commas_removed_from_both_witness:
  "calcDiffAbs ''1000'' ''1200'' = Inr \<lparr>text' = ''20.0%'', cls = ''diff-green''\<rparr>"
proof -
  have r: "removeCommas ''1,000'' = ''1000''" "removeCommas ''1,200'' = ''1200''"
    by (simp_all add: removeCommas_def)
  have "calcDiffAbs ''1,000'' ''1,200'' = Inr \<lparr>text' = ''20.0%'', cls = ''diff-green''\<rparr>"
    by (simp add: calcDiffAbs_def parse_1c000 parse_1c200 deviationOf_1000_1200)
  with calcDiffAbs_commas_removed_from_both [of "''1,000''" "''1,200''"]
    calcDiffAbs_commas_removed_from_both [of "''1000''" "''1,200''"]
  show ?thesis by (simp add: r)
qed



text \<open>
  Claim C7: the calculator never throws (it returns a result for every pair of strings),
  and its result is the placeholder, the em dash with the class of a value that is not
  applicable, exactly when the prior value does not parse, parses to zero, or the
  current value does not parse; to parse is \<open>parseFloat\<close>, after the removal of commas,
  giving a finite number, the program's own test. The class and the text are each the
  placeholder's exactly then.
\<close>

theorem calcDiffAbs_not_applicable:
  "\<exists>d. calcDiffAbs prev curr' = Inr d \<and>
       (d = \<lparr>text' = em_dash, cls = ''diff-gray''\<rparr>) =
         (\<not> isFinite (parseFloat (removeCommas prev)) \<or>
          Number_equal (parseFloat (removeCommas prev)) (numLit 0) \<or>
          \<not> isFinite (parseFloat (removeCommas curr'))) \<and>
       (cls d = ''diff-gray'') =
         (\<not> isFinite (parseFloat (removeCommas prev)) \<or>
          Number_equal (parseFloat (removeCommas prev)) (numLit 0) \<or>
          \<not> isFinite (parseFloat (removeCommas curr'))) \<and>
       (text' d = em_dash) =
         (\<not> isFinite (parseFloat (removeCommas prev)) \<or>
          Number_equal (parseFloat (removeCommas prev)) (numLit 0) \<or>
          \<not> isFinite (parseFloat (removeCommas curr')))"
proof (cases "\<not> isFinite (parseFloat (removeCommas prev)) \<or>
          Number_equal (parseFloat (removeCommas prev)) (numLit 0) \<or>
          \<not> isFinite (parseFloat (removeCommas curr'))")
  case True
  then have "calcDiffAbs prev curr' = Inr \<lparr>text' = em_dash, cls = ''diff-gray''\<rparr>"
    unfolding calcDiffAbs_def Let_def by (rule deviationOf_guard)
  with True show ?thesis by simp
next
  case False
  let ?d = "deviation (parseFloat (removeCommas prev)) (parseFloat (removeCommas curr'))"
  obtain fixed where f: "toFixed 1 (roundedToTenth ?d) = Inr fixed"
    using toFixed_1_Inr by blast
  from False have "calcDiffAbs prev curr' =
             Inr \<lparr>text' = fixed @ ''%'',
                  cls = (if Number_lessThan (numLit 30) ?d
                         then ''diff-red'' else ''diff-green'')\<rparr>"
    unfolding calcDiffAbs_def Let_def by (intro deviationOf_value f) simp_all
  with False show ?thesis by (simp add: percent_not_dash)
qed

theorem calcDiffAbs_not_applicable_witness:
  "calcDiffAbs ''0'' ''50'' = Inr \<lparr>text' = em_dash, cls = ''diff-gray''\<rparr> \<and>
   calcDiffAbs ''100'' ''abc'' = Inr \<lparr>text' = em_dash, cls = ''diff-gray''\<rparr> \<and>
   calcDiffAbs ''abc'' ''50'' = Inr \<lparr>text' = em_dash, cls = ''diff-gray''\<rparr> \<and>
   calcDiffAbs ''100'' ''130'' \<noteq> Inr \<lparr>text' = em_dash, cls = ''diff-gray''\<rparr>"
  using calcDiffAbs_not_applicable [of "''0''" "''50''"]
    calcDiffAbs_not_applicable [of "''100''" "''abc''"]
    calcDiffAbs_not_applicable [of "''abc''" "''50''"]
    calcDiffAbs_not_applicable [of "''100''" "''130''"]
  by (auto simp: parse_0 parse_50 parse_100 parse_130 parse_abc isFinite_def numLit_0
      signedValue_def)

text \<open>
  Claim C10: the class is decided by the deviation before it is rounded, the display
  shows it rounded to one decimal place. For the prior value \<open>1000\<close> and the current
  value \<open>1300.4\<close> both parse, the prior is not zero, the deviation (about 30.04) is
  greater than 30 and is rounded to 30: the display is \<open>30.0%\<close> and the class is the one
  above the threshold.
\<close>

theorem calcDiffAbs_display_rounded_class_exact:
  "calcDiffAbs ''1000'' ''1300.4'' = Inr \<lparr>text' = ''30.0%'', cls = ''diff-red''\<rparr> \<and>
   parseFloat (removeCommas ''1000'') = Finite False 1000 \<and>
   parseFloat (removeCommas ''1300.4'') = Finite False (2859609841519821 / 2199023255552) \<and>
   deviation (Finite False 1000) (Finite False (2859609841519821 / 2199023255552)) =
     Finite False (8455508300388109 / 281474976710656) \<and>
   Number_lessThan (numLit 30) (Finite False (8455508300388109 / 281474976710656)) \<and>
   roundedToTenth (Finite False (8455508300388109 / 281474976710656)) = Finite False 30 \<and>
   toFixed 1 (Finite False 30) = Inr ''30.0''"
  by (simp add: calcDiffAbs_def parse_1000 parse_1300p4 deviationOf_1000_1300p4
      deviation_1000_1300p4 above_1000_1300p4 rounded_1000_1300p4 fixed_1000_1300p4
      del: One_nat_def)

end
